theory Spec2Isabelle
  imports Complex_Main
begin

section \<open>Numbers and errors\<close>

text \<open>
  The program is \<^verbatim>\<open>export/mapnik/render.py\<close> (Python 2). Its numbers are Python ints
  and floats. Both are modelled by rationals with exact arithmetic, so the rounding of
  IEEE doubles is not part of the model; \<^verbatim>\<open>int(v)\<close> on a number is truncation
  toward zero. An exception is a value of the type \<open>error\<close>.
\<close>

datatype error = IndexError | ValueError | TypeError | ZeroDivisionError | PngError

definition int_num :: "rat \<Rightarrow> int" where
  \<comment> \<open>Python's \<^verbatim>\<open>int(v)\<close> for a number \<open>v\<close>\<close>
  "int_num v = (if 0 \<le> v then \<lfloor>v\<rfloor> else \<lceil>v\<rceil>)"

section \<open>StyleParser\<close>

text \<open>
  One entry of \<^verbatim>\<open>styles.json\<close>. A key that the code reads with a default, or tests
  against \<^verbatim>\<open>None\<close>, is an optional field; the other keys are read without a default.
\<close>

record map_tiles_options =
  indexing :: string
  url :: string
  http_headers :: "(string \<times> string) list"

record style =
  unit :: "string option"
  zoom :: rat
  paper_size :: "rat list"
  map_size :: "rat list"
  margin :: "rat list"
  orientation :: "string option"
  area_border_color :: "rat list"
  area_border_width :: rat
  copyright_margin :: "rat list option"
  qrcode_margin :: "rat list option"
  qrcode :: "bool option"
  map_tiles :: "map_tiles_options option"
  format :: "string option"

definition UNIT_CM :: string where "UNIT_CM = ''cm''"
definition UNIT_MM :: string where "UNIT_MM = ''mm''"
definition UNIT_PX :: string where "UNIT_PX = ''px''"
definition UNIT_INCH :: string where "UNIT_INCH = ''in''"
definition DEFAULT_UNIT :: string where "DEFAULT_UNIT = UNIT_PX"

definition cm_to_px :: "rat \<Rightarrow> int" where
  "cm_to_px v = int_num (v * 72 / (254 / 100))"

definition mm_to_px :: "rat \<Rightarrow> int" where
  "mm_to_px v = int_num (v * 72 / (254 / 10))"

definition inch_to_px :: "rat \<Rightarrow> int" where
  "inch_to_px v = int_num (v * 72)"

definition get_unit :: "style \<Rightarrow> string" where
  \<comment> \<open>\<^verbatim>\<open>self.get(self.UNIT, self.DEFAULT_UNIT)\<close>\<close>
  "get_unit st = (case unit st of None \<Rightarrow> DEFAULT_UNIT | Some u \<Rightarrow> u)"

definition to_px :: "style \<Rightarrow> rat \<Rightarrow> rat option" where
  \<comment> \<open>the result \<open>None\<close> is Python's \<^verbatim>\<open>None\<close>, returned when no branch matches\<close>
  "to_px st v =
     (let u = get_unit st in
      if u = UNIT_PX then Some v
      else if u = UNIT_CM then Some (of_int (cm_to_px v))
      else if u = UNIT_MM then Some (of_int (mm_to_px v))
      else if u = UNIT_INCH then Some (of_int (inch_to_px v))
      else None)"

definition get_px :: "style \<Rightarrow> rat list \<Rightarrow> rat option list" where
  \<comment> \<open>\<^verbatim>\<open>get_px\<close> on a list-valued key: a new list of the converted elements\<close>
  "get_px st vs = map (to_px st) vs"

section \<open>Paper and map sizes\<close>

definition get_sizes :: "style \<Rightarrow> rat \<Rightarrow> rat \<Rightarrow> error + (rat option list \<times> rat option list)" where
  \<comment> \<open>\<^verbatim>\<open>_get_sizes\<close>; \<open>w\<close> and \<open>h\<close> are \<^verbatim>\<open>merc_bbox.width()\<close> and
      \<^verbatim>\<open>merc_bbox.height()\<close>, floats; the result is (paper_size, map_size)\<close>
  "get_sizes st w h =
     (let paper = get_px st (paper_size st);
          mp = get_px st (map_size st) in
      if orientation st = Some ''auto'' then
        (if h = 0 then Inl ZeroDivisionError
         else if w / h < 1 then Inr (rev paper, rev mp)
         else Inr (paper, mp))
      else Inr (paper, mp))"

section \<open>The drawing context\<close>

text \<open>
  The cairo context is an external collaborator. A call of one of its drawing methods is
  recorded as an operation; what a piece of code does to the context is the list of the
  operations it has issued, together with the exception that ended it, if any.
  Decoding a PNG file (\<^verbatim>\<open>cairo.ImageSurface.create_from_png\<close>) can fail and then raises.
\<close>

datatype image = Image (image_file: string) (get_width: int) (get_height: int)

datatype op =
    Save
  | Restore
  | Scale rat rat
  | Translate rat rat
  | Move_to rat rat
  | Line_to rat rat
  | Close_path
  | Set_source_rgba rat rat rat rat
  | Set_line_width rat
  | Stroke
  | Select_font_face string
  | Set_font_size rat
  | Show_text string
  | Set_source_surface image rat rat
  | Paint
  | Mapnik_render

type_synonym drawn = "op list \<times> error option"

definition emit :: "op list \<Rightarrow> drawn" where
  "emit ops = (ops, None)"

definition raise :: "error \<Rightarrow> drawn" where
  "raise e = ([], Some e)"

fun seq :: "drawn \<Rightarrow> drawn \<Rightarrow> drawn" where
  \<comment> \<open>statement sequencing: what follows an exception is not executed\<close>
  "seq (ops, Some e) d = (ops, Some e)"
| "seq (ops, None) (ops', res) = (ops @ ops', res)"

definition try_val :: "error + 'a \<Rightarrow> ('a \<Rightarrow> drawn) \<Rightarrow> drawn" where
  \<comment> \<open>evaluate an expression that may raise, then go on with its value\<close>
  "try_val v f = (case v of Inl e \<Rightarrow> raise e | Inr a \<Rightarrow> f a)"

definition item :: "'a list \<Rightarrow> nat \<Rightarrow> error + 'a" where
  \<comment> \<open>\<^verbatim>\<open>xs[i]\<close> for a literal index \<open>i \<ge> 0\<close>\<close>
  "item xs i = (if i < length xs then Inr (xs ! i) else Inl IndexError)"

definition num :: "rat option \<Rightarrow> error + rat" where
  \<comment> \<open>a value used as a number: \<^verbatim>\<open>None\<close> in arithmetic or as a coordinate is a TypeError\<close>
  "num v = (case v of None \<Rightarrow> Inl TypeError | Some a \<Rightarrow> Inr a)"

definition num_item :: "rat option list \<Rightarrow> nat \<Rightarrow> error + rat" where
  "num_item xs i = (case item xs i of Inl e \<Rightarrow> Inl e | Inr v \<Rightarrow> num v)"

section \<open>The renderer as the layers see it\<close>

datatype Coord = Coord (coord_x: rat) (coord_y: rat)

datatype tileloader =
    GoogleTileLoader rat rat rat rat int
  | TMSTileLoader rat rat rat rat int
  | FTileLoader rat rat rat rat int

text \<open>
  The collaborators outside the repository's source are parameters: the projection
  (\<^verbatim>\<open>mapnik2.ProjTransform.forward\<close>), the view transform of the map, the projected
  bounding box, the PNG decoder, \<^verbatim>\<open>GlobalMercator.TileLatLonBounds\<close> and the tile
  loaders' \<^verbatim>\<open>download\<close>.
\<close>

record externals =
  transform_forward :: "Coord \<Rightarrow> Coord"
  view_transform_forward :: "Coord \<Rightarrow> Coord"
  merc_bbox_width :: rat
  merc_bbox_height :: rat
  create_from_png :: "string \<Rightarrow> image option"
  TileLatLonBounds :: "int \<Rightarrow> int \<Rightarrow> int \<Rightarrow> rat \<times> rat \<times> rat \<times> rat"
  download :: "tileloader \<Rightarrow> string \<Rightarrow> string \<Rightarrow> (string \<times> string) list \<Rightarrow> string list"

record renderer = externals +
  get_style :: style
  get_zoom :: rat
  get_map_size :: "rat option list"
  get_paper_size :: "rat option list"

section \<open>Layer\<close>

text \<open>A geographic point of the input is the pair \<open>(lat, lng)\<close>, the JSON list \<^verbatim>\<open>[lat, lng]\<close>.\<close>

type_synonym latlng = "rat \<times> rat"

definition google_to_mapnik_coord :: "latlng \<Rightarrow> Coord" where
  \<comment> \<open>\<^verbatim>\<open>mapnik2.Coord(latlng[1], latlng[0])\<close>\<close>
  "google_to_mapnik_coord latlng = Coord (snd latlng) (fst latlng)"

definition convert_point :: "renderer \<Rightarrow> latlng \<Rightarrow> Coord" where
  "convert_point r latlng =
     (let coord = google_to_mapnik_coord latlng;
          merc_coord = transform_forward r coord;
          view_coord = view_transform_forward r merc_coord
      in view_coord)"

subsection \<open>MapnikLayer\<close>

definition MapnikLayer_draw :: "renderer \<Rightarrow> drawn" where
  \<comment> \<open>\<^verbatim>\<open>mapnik2.render(self.m, self.ctx)\<close>\<close>
  "MapnikLayer_draw r = emit [Mapnik_render]"

subsection \<open>AreaLayer\<close>

record area =
  path :: "latlng list"

function line_to_loop :: "Coord list \<Rightarrow> op list" where
  \<comment> \<open>\<^verbatim>\<open>while len(coords): coord = coords.pop(); self.ctx.line_to(coord.x, coord.y)\<close>\<close>
  "line_to_loop coords =
     (if coords = [] then []
      else Line_to (coord_x (last coords)) (coord_y (last coords)) # line_to_loop (butlast coords))"
  by pat_completeness auto
termination
  by (relation "measure length") auto

declare line_to_loop.simps [simp del]

definition draw_area :: "renderer \<Rightarrow> area \<Rightarrow> drawn" where
  \<comment> \<open>\<^verbatim>\<open>_draw_area\<close>. The test \<^verbatim>\<open>if len(coords) < 2: pass\<close> does nothing, so both of its
      branches continue with \<^verbatim>\<open>coords.pop()\<close>, which raises IndexError on an empty list.\<close>
  "draw_area r a =
     (let coords = map (convert_point r) (path a) in
      if coords = [] then raise IndexError
      else
        (let start = last coords; coords = butlast coords in
         emit (Move_to (coord_x start) (coord_y start) # line_to_loop coords @ [Close_path])))"

fun draw_areas :: "renderer \<Rightarrow> area list \<Rightarrow> drawn" where
  \<comment> \<open>\<^verbatim>\<open>for area in self.areas: self._draw_area(area)\<close>\<close>
  "draw_areas r [] = emit []"
| "draw_areas r (a # as) = seq (draw_area r a) (draw_areas r as)"

definition AreaLayer_draw :: "renderer \<Rightarrow> area list \<Rightarrow> drawn" where
  "AreaLayer_draw r areas =
     seq (emit [Save])
    (let zoom = get_zoom r in
     seq (emit [Scale zoom zoom])
    (seq (draw_areas r areas)
    (let c = area_border_color (get_style r) in
     try_val (item c 0) (\<lambda>c0.
     try_val (item c 1) (\<lambda>c1.
     try_val (item c 2) (\<lambda>c2.
     try_val (item c 3) (\<lambda>c3.
     emit [Set_source_rgba c0 c1 c2 c3,
           Set_line_width (area_border_width (get_style r)),
           Stroke,
           Restore])))))))"

subsection \<open>CopyrightLayer\<close>

definition get_px_default :: "style \<Rightarrow> rat list option \<Rightarrow> rat list \<Rightarrow> rat option list" where
  \<comment> \<open>\<^verbatim>\<open>get_px(key, default)\<close> for a list-valued key that may be absent\<close>
  "get_px_default st v d = get_px st (case v of None \<Rightarrow> d | Some vs \<Rightarrow> vs)"

definition CopyrightLayer_draw :: "renderer \<Rightarrow> string \<Rightarrow> drawn" where
  "CopyrightLayer_draw r text =
     seq (emit [Save])
    (let zoom = 1 in
     seq (emit [Scale zoom zoom, Select_font_face ''Sans'', Set_font_size 6])
    (let margin = get_px_default (get_style r) (copyright_margin (get_style r)) [3, 3];
         map_size = get_map_size r in
     try_val (item margin 0) (\<lambda>x.
     try_val (item map_size 1) (\<lambda>h.
     try_val (item margin 1) (\<lambda>m1.
     try_val (num h) (\<lambda>h.
     try_val (num m1) (\<lambda>m1.
     let y = h - m1 in
     try_val (num x) (\<lambda>x.
     emit [Move_to x y, Show_text text, Restore]))))))))"

subsection \<open>QRCodeLayer\<close>

definition QRCodeLayer_draw :: "renderer \<Rightarrow> string \<Rightarrow> drawn" where
  "QRCodeLayer_draw r qrcode_file =
     seq (emit [Save])
    (let zoom = 3 / 10 in
     seq (emit [Scale zoom zoom])
    (case create_from_png r qrcode_file of
       None \<Rightarrow> raise PngError
     | Some img \<Rightarrow>
        (let margin = get_px_default (get_style r) (qrcode_margin (get_style r)) [0, 0];
             map_size = get_map_size r in
         try_val (num_item map_size 0) (\<lambda>w.
         try_val (num_item margin 0) (\<lambda>m0.
         let x = of_int (int_num (1 / zoom * w)) - of_int (get_width img) - m0 in
         try_val (num_item map_size 1) (\<lambda>h.
         try_val (num_item margin 1) (\<lambda>m1.
         let y = of_int (int_num (1 / zoom * h)) - of_int (get_height img) - m1 in
         emit [Set_source_surface img x y, Paint, Restore])))))))"

subsection \<open>TileLayer\<close>

text \<open>
  The string functions the constructor uses: \<^verbatim>\<open>str.split\<close> with a one-character
  separator, \<^verbatim>\<open>os.path.basename\<close> (the part after the last slash) and \<^verbatim>\<open>int\<close> on a
  string (surrounding whitespace, an optional sign, one or more decimal digits; anything
  else raises ValueError).
\<close>

fun split_from :: "char \<Rightarrow> string \<Rightarrow> string \<Rightarrow> string list" where
  \<comment> \<open>the scan of \<^verbatim>\<open>split\<close>; \<open>cur\<close> holds the current part, reversed\<close>
  "split_from sep cur [] = [rev cur]"
| "split_from sep cur (c # cs) =
     (if c = sep then rev cur # split_from sep [] cs
      else split_from sep (c # cur) cs)"

definition split :: "char \<Rightarrow> string \<Rightarrow> string list" where
  "split sep s = split_from sep [] s"

definition basename :: "string \<Rightarrow> string" where
  "basename p = last (split CHR ''/'' p)"

definition isspace :: "char \<Rightarrow> bool" where
  "isspace c = (c = CHR '' '' \<or> c = CHR 0x09 \<or> c = CHR 0x0A \<or> c = CHR 0x0B
                 \<or> c = CHR 0x0C \<or> c = CHR 0x0D)"

definition strip :: "string \<Rightarrow> string" where
  "strip s = rev (dropWhile isspace (rev (dropWhile isspace s)))"

definition digit :: "char \<Rightarrow> int option" where
  "digit c =
     (let n = (of_char c :: nat) in
      if of_char CHR ''0'' \<le> n \<and> n \<le> of_char CHR ''9''
      then Some (int n - int (of_char CHR ''0''))
      else None)"

fun digits :: "int \<Rightarrow> string \<Rightarrow> int option" where
  "digits acc [] = Some acc"
| "digits acc (c # cs) =
     (case digit c of None \<Rightarrow> None | Some d \<Rightarrow> digits (10 * acc + d) cs)"

definition unsigned :: "string \<Rightarrow> error + int" where
  "unsigned s =
     (if s = [] then Inl ValueError
      else case digits 0 s of None \<Rightarrow> Inl ValueError | Some n \<Rightarrow> Inr n)"

definition int_str :: "string \<Rightarrow> error + int" where
  \<comment> \<open>Python's \<^verbatim>\<open>int(s)\<close> for a string \<open>s\<close>\<close>
  "int_str s =
     (case strip s of
        [] \<Rightarrow> Inl ValueError
      | c # cs \<Rightarrow>
          if c = CHR ''-'' then (case unsigned cs of Inl e \<Rightarrow> Inl e | Inr n \<Rightarrow> Inr (- n))
          else if c = CHR ''+'' then unsigned cs
          else unsigned (c # cs))"

record tile_layer =
  filename :: string
  tx :: int
  ty :: int
  tz :: int

definition TileLayer_init :: "string \<Rightarrow> error + tile_layer" where
  \<comment> \<open>\<^verbatim>\<open>TileLayer.__init__\<close>: the address is \<open>(0, 0, 0)\<close> unless the basename has three
      parts, and then each part goes through \<^verbatim>\<open>int\<close>\<close>
  "TileLayer_init fname =
     (let base = hd (split CHR ''.'' (basename fname));
          parts = split CHR ''_'' base in
      if length parts = 3 then
        (case int_str (parts ! 0) of Inl e \<Rightarrow> Inl e | Inr a \<Rightarrow>
        (case int_str (parts ! 1) of Inl e \<Rightarrow> Inl e | Inr b \<Rightarrow>
        (case int_str (parts ! 2) of Inl e \<Rightarrow> Inl e | Inr c \<Rightarrow>
         Inr \<lparr>filename = fname, tx = a, ty = b, tz = c\<rparr>)))
      else Inr \<lparr>filename = fname, tx = 0, ty = 0, tz = 0\<rparr>)"

definition TileLayer_draw :: "renderer \<Rightarrow> tile_layer \<Rightarrow> drawn" where
  "TileLayer_draw r t =
     (case TileLatLonBounds r (tx t) (ty t) (tz t) of (min_lat, min_lon, max_lat, max_lon) \<Rightarrow>
      let coord_nw = convert_point r (max_lat, min_lon);
          coord_se = convert_point r (min_lat, max_lon);
          tile_width = coord_x coord_se - coord_x coord_nw in
      seq (emit [Save])
     (case create_from_png r (filename t) of
        None \<Rightarrow> raise PngError
      | Some img \<Rightarrow>
         (let zoom = tile_width / 256 in
          seq (emit [Scale zoom zoom])
          (if zoom = 0 then raise ZeroDivisionError
           else emit [Set_source_surface img
                        (of_int (int_num (1 / zoom * coord_x coord_nw)))
                        (of_int (int_num (1 / zoom * coord_y coord_nw))),
                      Paint,
                      Restore]))))"

subsection \<open>CustomMapLayer\<close>

record custom_map_layer =
  cache_dir :: string
  options :: "map_tiles_options option"
  the_tileloader :: "tileloader option"

definition CustomMapLayer_init ::
  "style \<Rightarrow> string \<Rightarrow> rat \<times> rat \<times> rat \<times> rat \<Rightarrow> custom_map_layer" where
  "CustomMapLayer_init st dir bounds =
     (case map_tiles st of
        None \<Rightarrow> \<lparr>cache_dir = dir, options = None, the_tileloader = None\<rparr>
      | Some opts \<Rightarrow>
         (case bounds of (min_lon, min_lat, max_lon, max_lat) \<Rightarrow>
          let width = 512 in
          \<lparr>cache_dir = dir, options = Some opts,
           the_tileloader =
             (if indexing opts = ''google'' then Some (GoogleTileLoader min_lat min_lon max_lat max_lon width)
              else if indexing opts = ''tms'' then Some (TMSTileLoader min_lat min_lon max_lat max_lon width)
              else if indexing opts = ''f'' then Some (FTileLoader min_lat min_lon max_lat max_lon width)
              else None)\<rparr>))"

fun make_tiles :: "string list \<Rightarrow> error + tile_layer list" where
  \<comment> \<open>the loop of \<^verbatim>\<open>_get_tiles\<close> over the downloaded files\<close>
  "make_tiles [] = Inr []"
| "make_tiles (f # fs) =
     (case TileLayer_init f of
        Inl e \<Rightarrow> Inl e
      | Inr t \<Rightarrow> (case make_tiles fs of Inl e \<Rightarrow> Inl e | Inr ts \<Rightarrow> Inr (t # ts)))"

definition get_tiles :: "renderer \<Rightarrow> custom_map_layer \<Rightarrow> tileloader \<Rightarrow> error + tile_layer list" where
  \<comment> \<open>\<^verbatim>\<open>self.options\<close> is set whenever the tile loader is; the first case is never reached
      from \<^verbatim>\<open>draw\<close>\<close>
  "get_tiles r l loader =
     (case options l of
        None \<Rightarrow> Inl TypeError
      | Some opts \<Rightarrow> make_tiles (download r loader (cache_dir l) (url opts) (http_headers opts)))"

fun draw_tiles :: "renderer \<Rightarrow> tile_layer list \<Rightarrow> drawn" where
  "draw_tiles r [] = emit []"
| "draw_tiles r (t # ts) = seq (TileLayer_draw r t) (draw_tiles r ts)"

definition CustomMapLayer_draw :: "renderer \<Rightarrow> custom_map_layer \<Rightarrow> drawn" where
  "CustomMapLayer_draw r l =
     (case the_tileloader l of
        None \<Rightarrow> emit []
      | Some loader \<Rightarrow> try_val (get_tiles r l loader) (draw_tiles r))"

section \<open>MapnikRenderer\<close>

datatype layer =
    MapnikLayer
  | CustomMapLayer custom_map_layer
  | AreaLayer "area list"
  | CopyrightLayer string
  | QRCodeLayer string

fun draw :: "renderer \<Rightarrow> layer \<Rightarrow> drawn" where
  "draw r MapnikLayer = MapnikLayer_draw r"
| "draw r (CustomMapLayer l) = CustomMapLayer_draw r l"
| "draw r (AreaLayer areas) = AreaLayer_draw r areas"
| "draw r (CopyrightLayer text) = CopyrightLayer_draw r text"
| "draw r (QRCodeLayer qrcode_file) = QRCodeLayer_draw r qrcode_file"

fun draw_layers :: "renderer \<Rightarrow> layer list \<Rightarrow> drawn" where
  \<comment> \<open>\<^verbatim>\<open>for layer in layers: layer.draw()\<close>\<close>
  "draw_layers r [] = emit []"
| "draw_layers r (l # ls) = seq (draw r l) (draw_layers r ls)"

text \<open>
  The constructor \<^verbatim>\<open>QRCodeLayer.__init__(self, renderer, qrcode_file)\<close> has two
  parameters besides \<^verbatim>\<open>self\<close>; Python raises TypeError for a call that passes another
  number of positional arguments.
\<close>

datatype arg = Renderer_arg | Str_arg string

definition QRCodeLayer_init :: "arg list \<Rightarrow> error + layer" where
  "QRCodeLayer_init args =
     (case args of
        [Renderer_arg, Str_arg qrcode_file] \<Rightarrow> Inr (QRCodeLayer qrcode_file)
      | _ \<Rightarrow> Inl TypeError)"

definition COPYRIGHT_TEXT :: string where
  \<comment> \<open>the text starts with the copyright sign, two bytes in the UTF-8 source file\<close>
  "COPYRIGHT_TEXT = CHR 0xC2 # CHR 0xA9 # '' OpenStreetMap contributors, CC-BY-SA''"

definition TILE_CACHE_DIR :: string where
  "TILE_CACHE_DIR = ''/tmp/tilecache''"

definition truthy :: "string option \<Rightarrow> bool" where
  \<comment> \<open>the truth value of the command-line argument: \<^verbatim>\<open>None\<close> and the empty string are false\<close>
  "truthy q = (case q of None \<Rightarrow> False | Some s \<Rightarrow> s \<noteq> [])"

definition qrcode_enabled :: "style \<Rightarrow> bool" where
  \<comment> \<open>\<^verbatim>\<open>self.style.get('qrcode', True)\<close>\<close>
  "qrcode_enabled st = (case qrcode st of None \<Rightarrow> True | Some b \<Rightarrow> b)"

definition create_layers ::
  "style \<Rightarrow> rat \<times> rat \<times> rat \<times> rat \<Rightarrow> area list \<Rightarrow> string option \<Rightarrow> error + layer list" where
  \<comment> \<open>the section \<^verbatim>\<open># create layers\<close> of \<^verbatim>\<open>render\<close>; the last call is \<^verbatim>\<open>QRCodeLayer(qrcode)\<close>\<close>
  "create_layers st bounds areas qrcode_arg =
     (let layers = [MapnikLayer,
                    CustomMapLayer (CustomMapLayer_init st TILE_CACHE_DIR bounds),
                    AreaLayer areas,
                    CopyrightLayer COPYRIGHT_TEXT] in
      if truthy qrcode_arg \<and> qrcode_enabled st then
        (case QRCodeLayer_init [Str_arg (the qrcode_arg)] of
           Inl e \<Rightarrow> Inl e
         | Inr l \<Rightarrow> Inr (layers @ [l]))
      else Inr layers)"

definition render ::
  "externals \<Rightarrow> style \<Rightarrow> string option \<Rightarrow> area list \<Rightarrow> rat \<times> rat \<times> rat \<times> rat \<Rightarrow> drawn" where
  \<comment> \<open>\<^verbatim>\<open>render\<close> from \<^verbatim>\<open>self._get_sizes()\<close> on, for a style that has been loaded and a
      bounding box that has been parsed and projected. Creating the map and the surface
      is the collaborators' work; what is kept of it are the values the code reads.\<close>
  "render ext st qrcode_arg areas bounds =
     try_val (get_sizes st (merc_bbox_width ext) (merc_bbox_height ext)) (\<lambda>(paper, mp).
     if zoom st = 0 then raise ZeroDivisionError
     else
      (let zoom_f = 1 / zoom st in
       try_val (num_item mp 0) (\<lambda>w.
       try_val (num_item mp 1) (\<lambda>h.
       let output_format = (case format st of None \<Rightarrow> ''pdf'' | Some f \<Rightarrow> f) in
       try_val (if output_format = ''pdf''
                then (case num_item paper 0 of Inl e \<Rightarrow> Inl e | Inr pw \<Rightarrow>
                     (case num_item paper 1 of Inl e \<Rightarrow> Inl e | Inr ph \<Rightarrow> Inr ()))
                else if output_format = ''svg'' then Inr ()
                else Inl TypeError) (\<lambda>surface.
       let margin = get_px st (margin st) in
       try_val (item margin 0) (\<lambda>m0.
       try_val (item margin 1) (\<lambda>m1.
       try_val (num m0) (\<lambda>m0.
       try_val (num m1) (\<lambda>m1.
       seq (emit [Translate m0 m1])
      (let r = \<lparr>transform_forward = transform_forward ext,
                view_transform_forward = view_transform_forward ext,
                merc_bbox_width = merc_bbox_width ext,
                merc_bbox_height = merc_bbox_height ext,
                create_from_png = create_from_png ext,
                TileLatLonBounds = TileLatLonBounds ext,
                download = download ext,
                get_style = st,
                get_zoom = zoom st,
                get_map_size = mp,
                get_paper_size = paper\<rparr> in
       try_val (create_layers st bounds areas qrcode_arg) (draw_layers r)))))))))))"

section \<open>The transform and paint state of the context\<close>

text \<open>
  What \<^verbatim>\<open>save\<close> and \<^verbatim>\<open>restore\<close> preserve: the transformation (the code only scales
  and translates, so the matrix is a scale and an offset for each axis), the source,
  the line width and the font. \<^verbatim>\<open>save\<close> pushes the state on a stack and \<^verbatim>\<open>restore\<close>
  pops it. The path operations, \<^verbatim>\<open>stroke\<close>, \<^verbatim>\<open>paint\<close> and \<^verbatim>\<open>show_text\<close> leave this
  state alone. The effect of the external map renderer on it is a parameter.
\<close>

datatype source = Black | Rgba rat rat rat rat | Surface image rat rat

record gstate =
  scale_x :: rat
  scale_y :: rat
  offset_x :: rat
  offset_y :: rat
  the_source :: source
  line_width :: rat
  font_face :: string
  font_size :: rat

record canvas =
  current :: gstate
  saved :: "gstate list"

fun exec :: "(canvas \<Rightarrow> canvas) \<Rightarrow> op \<Rightarrow> canvas \<Rightarrow> canvas" where
  "exec ext Save c = c\<lparr>saved := current c # saved c\<rparr>"
| "exec ext Restore c =
     (case saved c of [] \<Rightarrow> c | g # gs \<Rightarrow> c\<lparr>current := g, saved := gs\<rparr>)"
| "exec ext (Scale a b) c =
     c\<lparr>current := (current c)\<lparr>scale_x := scale_x (current c) * a,
                                scale_y := scale_y (current c) * b\<rparr>\<rparr>"
| "exec ext (Translate a b) c =
     c\<lparr>current := (current c)\<lparr>offset_x := offset_x (current c) + scale_x (current c) * a,
                                offset_y := offset_y (current c) + scale_y (current c) * b\<rparr>\<rparr>"
| "exec ext (Set_source_rgba r g b a) c = c\<lparr>current := (current c)\<lparr>the_source := Rgba r g b a\<rparr>\<rparr>"
| "exec ext (Set_source_surface img px py) c =
     c\<lparr>current := (current c)\<lparr>the_source := Surface img px py\<rparr>\<rparr>"
| "exec ext (Set_line_width w) c = c\<lparr>current := (current c)\<lparr>line_width := w\<rparr>\<rparr>"
| "exec ext (Select_font_face f) c = c\<lparr>current := (current c)\<lparr>font_face := f\<rparr>\<rparr>"
| "exec ext (Set_font_size n) c = c\<lparr>current := (current c)\<lparr>font_size := n\<rparr>\<rparr>"
| "exec ext Mapnik_render c = ext c"
| "exec ext (Move_to px py) c = c"
| "exec ext (Line_to px py) c = c"
| "exec ext Close_path c = c"
| "exec ext Stroke c = c"
| "exec ext (Show_text s) c = c"
| "exec ext Paint c = c"

fun run :: "(canvas \<Rightarrow> canvas) \<Rightarrow> op list \<Rightarrow> canvas \<Rightarrow> canvas" where
  "run ext [] c = c"
| "run ext (a # ops) c = run ext ops (exec ext a c)"

fun plain :: "op \<Rightarrow> bool" where
  \<comment> \<open>an operation that leaves the stack of saved states alone\<close>
  "plain Save = False"
| "plain Restore = False"
| "plain Mapnik_render = False"
| "plain _ = True"

section \<open>Notions used to state the properties\<close>

definition closed_polygon :: "Coord list \<Rightarrow> op list" where
  \<comment> \<open>the polygon as the specification words it: the first point starts the path, the
      remaining points follow in order as line segments, and the path is closed\<close>
  "closed_polygon cs =
     (case cs of
        [] \<Rightarrow> []
      | c # rest \<Rightarrow>
          Move_to (coord_x c) (coord_y c)
            # map (\<lambda>p. Line_to (coord_x p) (coord_y p)) rest @ [Close_path])"

definition scoped :: "op list \<Rightarrow> bool" where
  \<comment> \<open>one \<^verbatim>\<open>save\<close>, operations that leave the stack alone, one \<^verbatim>\<open>restore\<close>\<close>
  "scoped ops =
     (ops \<noteq> [] \<and> hd ops = Save \<and> last ops = Restore \<and> list_all plain (butlast (tl ops)))"

fun is_path_op :: "op \<Rightarrow> bool" where
  "is_path_op (Move_to a b) = True"
| "is_path_op (Line_to a b) = True"
| "is_path_op Close_path = True"
| "is_path_op _ = False"

fun is_scale :: "op \<Rightarrow> bool" where
  "is_scale (Scale a b) = True"
| "is_scale _ = False"




subsection \<open>A concrete render\<close>

definition demo_style :: style where
  "demo_style =
     \<lparr>unit = None, zoom = 1 / 2, paper_size = [842, 595], map_size = [600, 400],
      margin = [20, 20], orientation = Some ''auto'', area_border_color = [1, 0, 0, 1],
      area_border_width = 2, copyright_margin = None, qrcode_margin = None,
      qrcode = None, map_tiles = None, format = None\<rparr>"

definition demo_png :: "string \<Rightarrow> image option" where
  "demo_png f = (if f = ''missing.png'' then None else Some (Image f 256 256))"

definition demo_bounds :: "int \<Rightarrow> int \<Rightarrow> int \<Rightarrow> rat \<times> rat \<times> rat \<times> rat" where
  \<comment> \<open>(min_lat, min_lon, max_lat, max_lon)\<close>
  "demo_bounds a b c = (0, 10, 10, 394)"

definition demo_externals :: externals where
  "demo_externals =
     \<lparr>transform_forward = (\<lambda>c. c), view_transform_forward = (\<lambda>c. c),
      merc_bbox_width = 2, merc_bbox_height = 1,
      create_from_png = demo_png, TileLatLonBounds = demo_bounds,
      download = (\<lambda>loader dir u hs. [''1_2_3.png''])\<rparr>"

definition demo_renderer :: renderer where
  "demo_renderer =
     \<lparr>transform_forward = (\<lambda>c. c), view_transform_forward = (\<lambda>c. c),
      merc_bbox_width = 2, merc_bbox_height = 1,
      create_from_png = demo_png, TileLatLonBounds = demo_bounds,
      download = (\<lambda>loader dir u hs. [''1_2_3.png'']),
      get_style = demo_style, get_zoom = 1 / 2,
      get_map_size = [Some 600, Some 400], get_paper_size = [Some 842, Some 595]\<rparr>"


definition demo_area :: area where
  "demo_area = \<lparr>path = [(1, 2), (3, 4), (5, 6)]\<rparr>"

definition demo_canvas :: canvas where
  "demo_canvas =
     \<lparr>current = \<lparr>scale_x = 1, scale_y = 1, offset_x = 20, offset_y = 20, the_source = Black,
                 line_width = 2, font_face = ''Sans'', font_size = 10\<rparr>,
      saved = []\<rparr>"

section \<open>Unit conversion and orientation\<close>




text \<open>
  Claim C10. For a projected bounding box of positive height and sizes of the form
  \<^verbatim>\<open>[w, h]\<close>: when the orientation is \<open>auto\<close> and width/height < 1, the paper size and
  the map size both have their two components swapped; otherwise both are the configured
  sizes (in pixels).
\<close>

theorem get_sizes_orientation:
  assumes "paper_size st = [pw, ph]" and "map_size st = [mw, mh]" and "0 < h"
  shows "get_sizes st w h =
           Inr (if orientation st = Some ''auto'' \<and> w / h < 1
                then ([to_px st ph, to_px st pw], [to_px st mh, to_px st mw])
                else ([to_px st pw, to_px st ph], [to_px st mw, to_px st mh]))"
  using assms by (simp add: get_sizes_def get_px_def Let_def)

theorem get_sizes_orientation_witness:
  "paper_size demo_style = [842, 595] \<and> map_size demo_style = [600, 400] \<and> (0::rat) < 2 \<and>
   get_sizes demo_style 1 2 = Inr ([Some 595, Some 842], [Some 400, Some 600]) \<and>
   get_sizes demo_style 2 1 = Inr ([Some 842, Some 595], [Some 600, Some 400]) \<and>
   get_sizes (demo_style\<lparr>orientation := None\<rparr>) 1 2
     = Inr ([Some 842, Some 595], [Some 600, Some 400])"
  using get_sizes_orientation [of demo_style 842 595 600 400 2 1]
    get_sizes_orientation [of demo_style 842 595 600 400 1 2]
    get_sizes_orientation [of "demo_style\<lparr>orientation := None\<rparr>" 842 595 600 400 2 1]
  by (simp add: demo_style_def to_px_def get_unit_def DEFAULT_UNIT_def)

section \<open>Area paths\<close>

lemma line_to_loop_rev:
  "line_to_loop cs = map (\<lambda>p. Line_to (coord_x p) (coord_y p)) (rev cs)"
proof (induction cs rule: rev_induct)
  case Nil
  show ?case by (simp add: line_to_loop.simps)
next
  case (snoc c cs)
  have "line_to_loop (cs @ [c]) = Line_to (coord_x c) (coord_y c) # line_to_loop cs"
    by (subst line_to_loop.simps) simp
  with snoc show ?case by simp
qed

text \<open>
  Claim C2 says that a path of 0 or 1 points is skipped without error. The code does not
  skip: on the empty path \<^verbatim>\<open>_draw_area\<close> raises IndexError, and on a path of one point
  it issues \<^verbatim>\<open>move_to\<close> and \<^verbatim>\<open>close_path\<close>.
\<close>

theorem draw_area_degenerate:
  "draw_area r \<lparr>path = []\<rparr> = ([], Some IndexError) \<and>
   draw_area r \<lparr>path = [p]\<rparr> =
     ([Move_to (coord_x (convert_point r p)) (coord_y (convert_point r p)), Close_path], None)"
  by (simp add: draw_area_def raise_def emit_def line_to_loop.simps Let_def)

text \<open>
  Claim C3, as the code has it. For a path of at least 2 points the layer builds the
  closed polygon of the converted points taken in reverse: the last converted point
  starts the path, the others follow from the last but one down to the first as line
  segments, and the path is closed.
\<close>

theorem draw_area_reversed_polygon:
  assumes "2 \<le> length (path a)"
  shows "draw_area r a = (closed_polygon (rev (map (convert_point r) (path a))), None)"
proof -
  define cs where "cs = map (convert_point r) (path a)"
  from assms have ne: "cs \<noteq> []" by (auto simp: cs_def)
  then have r: "rev cs = last cs # rev (butlast cs)"
    by (metis append_butlast_last_id rev_eq_Cons_iff rev_rev_ident)
  have "draw_area r a
          = (Move_to (coord_x (last cs)) (coord_y (last cs))
               # map (\<lambda>p. Line_to (coord_x p) (coord_y p)) (rev (butlast cs)) @ [Close_path], None)"
    using ne by (simp add: draw_area_def Let_def emit_def line_to_loop_rev flip: cs_def)
  also have "\<dots> = (closed_polygon (rev cs), None)"
    unfolding closed_polygon_def r by simp
  finally show ?thesis by (simp add: cs_def rev_map)
qed

theorem draw_area_reversed_polygon_witness:
  "2 \<le> length (path demo_area) \<and>
   draw_area demo_renderer demo_area = ([Move_to 6 5, Line_to 4 3, Line_to 2 1, Close_path], None)"
  using draw_area_reversed_polygon [of demo_area demo_renderer]
  by (simp add: demo_area_def demo_renderer_def closed_polygon_def convert_point_def
      google_to_mapnik_coord_def)

text \<open>
  On the path (1, 2), (3, 4), (5, 6) the polygon is not the one that starts at the first
  point.
\<close>

theorem draw_area_order_counterexample:
  "draw_area demo_renderer demo_area
     \<noteq> (closed_polygon (map (convert_point demo_renderer) (path demo_area)), None)"
  by (simp add: draw_area_def Let_def emit_def demo_area_def demo_renderer_def closed_polygon_def
      convert_point_def google_to_mapnik_coord_def)

section \<open>Tile addresses\<close>

lemma TileLayer_init_example:
  "TileLayer_init ''/tmp/tilecache/14_9183_11764.png''
     = Inr \<lparr>filename = ''/tmp/tilecache/14_9183_11764.png'', tx = 14, ty = 9183, tz = 11764\<rparr>"
  by (simp add: TileLayer_init_def basename_def split_def Let_def int_str_def strip_def
      isspace_def unsigned_def digit_def)

lemma TileLayer_init_other_count:
  "length (split CHR ''_'' (hd (split CHR ''.'' (basename f)))) \<noteq> 3
   \<Longrightarrow> TileLayer_init f = Inr \<lparr>filename = f, tx = 0, ty = 0, tz = 0\<rparr>"
  by (simp add: TileLayer_init_def Let_def)

text \<open>
  Claim C4 says that a name that does not parse into three integers gives the address
  (0, 0, 0) and never raises. The code falls back to (0, 0, 0) only when the number of
  parts is not three; a name of three parts that are not integers raises ValueError.
\<close>

theorem TileLayer_init_non_integer_parts:
  "TileLayer_init ''a_b_c.png'' = Inl ValueError"
  by (simp add: TileLayer_init_def basename_def split_def Let_def int_str_def strip_def
      isspace_def unsigned_def digit_def)

section \<open>The list of layers\<close>

lemma create_layers_order:
  assumes "create_layers st bounds areas q = Inr ls"
  shows "ls = [MapnikLayer, CustomMapLayer (CustomMapLayer_init st TILE_CACHE_DIR bounds),
               AreaLayer areas, CopyrightLayer COPYRIGHT_TEXT]"
  using assms by (auto simp: create_layers_def QRCodeLayer_init_def Let_def split: if_splits)

text \<open>
  Claim C6 says that the QR code layer is part of the render when a QR source is given
  and the style has not disabled it. In the code, whenever both hold, constructing the
  layer raises TypeError, so the layer is never part of a render.
\<close>

theorem create_layers_qrcode_raises:
  assumes "truthy q" and "qrcode_enabled st"
  shows "create_layers st bounds areas q = Inl TypeError"
  using assms by (simp add: create_layers_def QRCodeLayer_init_def)

theorem create_layers_qrcode_raises_witness:
  "truthy (Some ''qr.png'') \<and> qrcode_enabled demo_style \<and>
   create_layers demo_style (21, 61, 22, 62) [demo_area] (Some ''qr.png'') = Inl TypeError"
  using create_layers_qrcode_raises [of "Some ''qr.png''" demo_style "(21, 61, 22, 62)" "[demo_area]"]
  by (simp add: truthy_def qrcode_enabled_def demo_style_def)

text \<open>
  Claim C8 says that every render draws the base map, the tile overlay, the area overlay,
  the copyright notice and then the QR code, when present. In the code a render with a
  QR source translates the context by the margins and then raises TypeError while the
  list of layers is built: no layer is drawn.
\<close>

theorem render_with_qrcode_draws_nothing:
  "render demo_externals demo_style (Some ''qr.png'') [demo_area] (21, 61, 22, 62)
     = ([Translate 20 20], Some TypeError)"
  by (simp add: render_def get_sizes_def get_px_def to_px_def get_unit_def DEFAULT_UNIT_def UNIT_PX_def
      demo_style_def demo_externals_def try_val_def num_item_def item_def num_def Let_def
      create_layers_def truthy_def qrcode_enabled_def QRCodeLayer_init_def raise_def emit_def)

section \<open>Tiles on the page\<close>







section \<open>Sequencing and the operations of the area overlay\<close>

lemma seq_None_left: "seq (xs, None) d = (xs @ fst d, snd d)"
  by (cases d) simp

lemma seq_emit: "seq (emit xs) d = (xs @ fst d, snd d)"
  by (simp add: emit_def seq_None_left)

lemma fst_seq: "fst (seq d e) = fst d @ (if snd d = None then fst e else [])"
  by (cases d; cases e; cases "snd d") auto

lemma snd_seq: "snd (seq d e) = (if snd d = None then snd e else snd d)"
  by (cases d; cases e; cases "snd d") auto

lemma is_path_op_plain: "is_path_op a \<Longrightarrow> plain a \<and> \<not> is_scale a"
  by (cases a) simp_all

lemma draw_area_path_ops: "list_all is_path_op (fst (draw_area r a))"
  by (simp add: draw_area_def Let_def raise_def emit_def line_to_loop_rev list_all_iff)

lemma draw_areas_path_ops: "list_all is_path_op (fst (draw_areas r as))"
  by (induction as) (simp_all add: emit_def fst_seq draw_area_path_ops)

lemma AreaLayer_draw_unfold:
  "AreaLayer_draw r areas =
     seq (emit [Save, Scale (get_zoom r) (get_zoom r)])
    (seq (draw_areas r areas)
    (if 4 \<le> length (area_border_color (get_style r))
     then emit [Set_source_rgba (area_border_color (get_style r) ! 0)
                  (area_border_color (get_style r) ! 1)
                  (area_border_color (get_style r) ! 2)
                  (area_border_color (get_style r) ! 3),
                Set_line_width (area_border_width (get_style r)), Stroke, Restore]
     else raise IndexError))"
  by (auto simp: AreaLayer_draw_def Let_def seq_None_left try_val_def item_def raise_def emit_def)


section \<open>The scale of the overlays\<close>




section \<open>Scoped drawing state\<close>

lemma run_append: "run ext (xs @ ys) c = run ext ys (run ext xs c)"
  by (induction xs arbitrary: c) simp_all

lemma exec_plain_saved: "plain a \<Longrightarrow> saved (exec ext a c) = saved c"
  by (cases a) simp_all

lemma run_plain_saved: "list_all plain xs \<Longrightarrow> saved (run ext xs c) = saved c"
  by (induction xs arbitrary: c) (simp_all add: exec_plain_saved)

lemma run_bracket:
  assumes "list_all plain body"
  shows "run ext (Save # body @ [Restore]) c = c"
proof -
  define c' where "c' = run ext body (c\<lparr>saved := current c # saved c\<rparr>)"
  have "saved c' = current c # saved c"
    unfolding c'_def using run_plain_saved [OF assms] by simp
  then have "exec ext Restore c' = c"
    by simp
  then show ?thesis
    by (simp add: run_append c'_def)
qed

lemma scoped_bracket:
  assumes "scoped xs"
  shows "xs = Save # butlast (tl xs) @ [Restore]"
proof -
  from assms obtain ys where xs: "xs = Save # ys" and l: "last xs = Restore"
    by (cases xs) (auto simp: scoped_def)
  then have "ys \<noteq> []" by auto
  with xs l have "ys = butlast ys @ [Restore]"
    by (metis append_butlast_last_id last_ConsR)
  with xs show ?thesis by simp
qed

lemma run_scoped: "scoped xs \<Longrightarrow> run ext xs c = c"
  using run_bracket [of "butlast (tl xs)" ext c] scoped_bracket [of xs]
  by (simp add: scoped_def)

lemma run_blocks: "list_all scoped blocks \<Longrightarrow> run ext (concat blocks) c = c"
  by (induction blocks) (simp_all add: run_append run_scoped)

lemma list_all_path_plain: "list_all is_path_op xs \<Longrightarrow> list_all plain xs"
  by (induction xs) (auto dest: is_path_op_plain)

lemma AreaLayer_draw_scoped:
  assumes "AreaLayer_draw r areas = (ops, None)"
  shows "scoped ops"
proof -
  let ?c = "area_border_color (get_style r)"
  from assms have s: "snd (AreaLayer_draw r areas) = None" and f: "ops = fst (AreaLayer_draw r areas)"
    by simp_all
  from s have ok: "snd (draw_areas r areas) = None" and len: "4 \<le> length ?c"
    by (auto simp: AreaLayer_draw_unfold seq_emit snd_seq emit_def raise_def split: if_splits)
  have "list_all plain (fst (draw_areas r areas))"
    by (rule list_all_path_plain [OF draw_areas_path_ops])
  with ok len show ?thesis
    by (simp add: f AreaLayer_draw_unfold seq_emit fst_seq emit_def scoped_def butlast_append)
qed

lemma TileLayer_draw_scoped:
  assumes "TileLayer_draw r t = (ops, None)"
  shows "scoped ops"
  using assms
  by (cases "TileLatLonBounds r (tx t) (ty t) (tz t)")
    (auto simp: TileLayer_draw_def Let_def seq_None_left emit_def raise_def scoped_def
      split: option.splits if_splits)

lemma CopyrightLayer_draw_scoped:
  assumes "CopyrightLayer_draw r text = (ops, None)"
  shows "scoped ops"
  using assms
  by (auto simp: CopyrightLayer_draw_def Let_def seq_None_left emit_def raise_def try_val_def
      scoped_def split: sum.splits)

lemma QRCodeLayer_draw_scoped:
  assumes "QRCodeLayer_draw r f = (ops, None)"
  shows "scoped ops"
  using assms
  by (auto simp: QRCodeLayer_draw_def Let_def seq_None_left emit_def raise_def try_val_def
      scoped_def split: sum.splits option.splits)

lemma seq_NoneD:
  assumes "seq d e = (ops, None)"
  shows "\<exists>xs ys. d = (xs, None) \<and> e = (ys, None) \<and> ops = xs @ ys"
  using assms by (cases d; cases e; cases "snd d") auto

lemma draw_tiles_blocks:
  assumes "draw_tiles r ts = (ops, None)"
  shows "\<exists>blocks. ops = concat blocks \<and> list_all scoped blocks"
  using assms
proof (induction ts arbitrary: ops)
  case Nil
  then have "ops = concat [] \<and> list_all scoped []" by (simp add: emit_def)
  then show ?case by blast
next
  case (Cons t ts)
  from seq_NoneD [OF Cons.prems [simplified]]
  obtain xs ys where a: "TileLayer_draw r t = (xs, None)" and b: "draw_tiles r ts = (ys, None)"
    and c: "ops = xs @ ys" by blast
  from Cons.IH [OF b] obtain blocks where "ys = concat blocks" and "list_all scoped blocks"
    by blast
  with c TileLayer_draw_scoped [OF a] have "ops = concat (xs # blocks) \<and> list_all scoped (xs # blocks)"
    by simp
  then show ?case by blast
qed

lemma CustomMapLayer_draw_blocks:
  assumes "CustomMapLayer_draw r l = (ops, None)"
  shows "\<exists>blocks. ops = concat blocks \<and> list_all scoped blocks"
proof (cases "the_tileloader l")
  case None
  with assms have "ops = concat [] \<and> list_all scoped []"
    by (simp add: CustomMapLayer_draw_def emit_def)
  then show ?thesis by blast
next
  case (Some loader)
  with assms obtain ts where "draw_tiles r ts = (ops, None)"
    by (auto simp: CustomMapLayer_draw_def try_val_def raise_def split: sum.splits)
  then show ?thesis by (rule draw_tiles_blocks)
qed

text \<open>
  Claim C7, as the code has it. A draw of the tile overlay, the area overlay, the
  copyright notice or the QR code that completes normally issues its operations between
  a \<^verbatim>\<open>save\<close> and the matching \<^verbatim>\<open>restore\<close> (the tile overlay once for each tile), so
  the transform and paint state of the context after the layer is the state before it.
\<close>

theorem layer_draw_restores_state:
  assumes "draw r l = (ops, None)" and "l \<noteq> MapnikLayer"
  shows "(\<exists>blocks. ops = concat blocks \<and> list_all scoped blocks) \<and> run ext ops c = c"
proof -
  have one: "scoped xs \<Longrightarrow> \<exists>blocks. xs = concat blocks \<and> list_all scoped blocks" for xs
    by (rule exI [of _ "[xs]"]) simp
  have "\<exists>blocks. ops = concat blocks \<and> list_all scoped blocks"
  proof (cases l)
    case MapnikLayer
    with assms(2) show ?thesis by simp
  next
    case (CustomMapLayer x)
    with assms(1) show ?thesis by (simp add: CustomMapLayer_draw_blocks)
  next
    case (AreaLayer x)
    with assms(1) show ?thesis by (simp add: one AreaLayer_draw_scoped)
  next
    case (CopyrightLayer x)
    with assms(1) show ?thesis by (simp add: one CopyrightLayer_draw_scoped)
  next
    case (QRCodeLayer x)
    with assms(1) show ?thesis by (simp add: one QRCodeLayer_draw_scoped)
  qed
  then show ?thesis
    using run_blocks by blast
qed


theorem layer_draw_restores_state_witness:
  "draw demo_renderer (AreaLayer [demo_area]) =
     ([Save, Scale (1 / 2) (1 / 2), Move_to 6 5, Line_to 4 3, Line_to 2 1, Close_path,
       Set_source_rgba 1 0 0 1, Set_line_width 2, Stroke, Restore], None) \<and>
   AreaLayer [demo_area] \<noteq> MapnikLayer \<and>
   run (\<lambda>c. c)
     [Save, Scale (1 / 2) (1 / 2), Move_to 6 5, Line_to 4 3, Line_to 2 1, Close_path,
      Set_source_rgba 1 0 0 1, Set_line_width 2, Stroke, Restore] demo_canvas = demo_canvas"
proof -
  have d: "draw demo_renderer (AreaLayer [demo_area]) =
     ([Save, Scale (1 / 2) (1 / 2), Move_to 6 5, Line_to 4 3, Line_to 2 1, Close_path,
       Set_source_rgba 1 0 0 1, Set_line_width 2, Stroke, Restore], None)"
    by (simp add: AreaLayer_draw_unfold draw_area_def line_to_loop_rev seq_None_left emit_def
        demo_renderer_def demo_style_def demo_area_def convert_point_def google_to_mapnik_coord_def
        Let_def)
  from layer_draw_restores_state [OF d, of "\<lambda>c. c" demo_canvas] d show ?thesis
    by simp
qed

text \<open>
  The base map layer issues no \<^verbatim>\<open>save\<close> of its own, and the area overlay on an area with
  an empty path ends in IndexError after \<^verbatim>\<open>save\<close> and \<^verbatim>\<open>scale\<close>, with the state not
  restored.
\<close>

theorem layer_draw_unrestored_counterexample:
  "MapnikLayer_draw demo_renderer = ([Mapnik_render], None) \<and>
   AreaLayer_draw demo_renderer [\<lparr>path = []\<rparr>] = ([Save, Scale (1 / 2) (1 / 2)], Some IndexError) \<and>
   saved (run (\<lambda>c. c) [Save, Scale (1 / 2) (1 / 2)] demo_canvas) \<noteq> saved demo_canvas \<and>
   scale_x (current (run (\<lambda>c. c) [Save, Scale (1 / 2) (1 / 2)] demo_canvas))
     \<noteq> scale_x (current demo_canvas)"
  by (simp add: MapnikLayer_draw_def AreaLayer_draw_unfold draw_area_def seq_None_left emit_def
      raise_def demo_renderer_def demo_canvas_def)

end
